theory Spec2Isabelle
  imports Main "HOL-Library.Word"
begin

section \<open>Machine integers and clocks\<close>

text \<open>
  The store's timestamps are \<^verbatim>\<open>int64_t\<close>, client identifiers and quorum sizes are
  \<^verbatim>\<open>int32_t\<close>. Both are modelled as words read in two's complement: comparisons are
  the signed ones (\<open><s\<close>, \<open>\<le>s\<close>). Signed overflow is undefined in C++; the model lets
  \<open>+\<close> wrap around, and the theorems that depend on an increment say so in a
  hypothesis.

  The two clocks of the program are inputs of the model. A reading of
  \<^verbatim>\<open>system_clock\<close> in milliseconds (\<^verbatim>\<open>GetCurrentTimestamp()\<close> of utils.h, and the
  same expression inside \<^verbatim>\<open>GenerateTimestamp\<close>) is an \<open>int64\<close> argument called
  \<open>current\<close> or \<open>wall\<close>. A reading of \<^verbatim>\<open>steady_clock\<close> is a \<open>time_point\<close>: the
  number of clock ticks, one tick being a nanosecond (the period of
  \<^verbatim>\<open>steady_clock\<close> in libstdc++ and libc++).
\<close>

type_synonym int64 = "64 word"
type_synonym int32 = "32 word"
type_synonym time_point = int

definition std_max :: "int64 \<Rightarrow> int64 \<Rightarrow> int64" where
  "std_max a b = (if a <s b then b else a)"

section \<open>The ABD server register (protocol/abd.cpp)\<close>

record ValueEntry =
  entry_value :: string
  entry_timestamp :: int64

record ReadResult =
  read_value :: string
  read_timestamp :: int64
  read_success :: bool

record WriteResult =
  write_success :: bool
  write_timestamp :: int64

record ABDProtocol =
  abd_store :: "string \<rightharpoonup> ValueEntry"
  abd_last_timestamp :: int64

definition ABD_init :: ABDProtocol where
  "ABD_init = \<lparr>abd_store = Map.empty, abd_last_timestamp = 0\<rparr>"

text \<open>\<^verbatim>\<open>ABDProtocol::GenerateTimestamp\<close>; \<open>current\<close> is the wall clock in milliseconds.\<close>

definition ABD_GenerateTimestamp :: "int64 \<Rightarrow> ABDProtocol \<Rightarrow> int64 \<times> ABDProtocol" where
  "ABD_GenerateTimestamp current st =
     (let st' = (if abd_last_timestamp st <s current
                 then st\<lparr>abd_last_timestamp := current\<rparr>
                 else st\<lparr>abd_last_timestamp := abd_last_timestamp st + 1\<rparr>)
      in (abd_last_timestamp st', st'))"

text \<open>
  \<^verbatim>\<open>ABDProtocol::Read\<close> assigns no member of the object, so the model returns the
  result only.
\<close>

definition ABD_Read :: "string \<Rightarrow> int64 \<Rightarrow> ABDProtocol \<Rightarrow> ReadResult" where
  "ABD_Read key client_timestamp st =
     (let result = \<lparr>read_value = [], read_timestamp = 0, read_success = False\<rparr>
      in case abd_store st key of
           Some it \<Rightarrow> result\<lparr>read_value := entry_value it,
                              read_timestamp := entry_timestamp it,
                              read_success := True\<rparr>
         | None \<Rightarrow> result\<lparr>read_value := [], read_timestamp := 0, read_success := True\<rparr>)"

definition ABD_Write ::
  "int64 \<Rightarrow> string \<Rightarrow> string \<Rightarrow> int64 \<Rightarrow> ABDProtocol \<Rightarrow> WriteResult \<times> ABDProtocol" where
  "ABD_Write current key val client_timestamp st =
     (let (server_timestamp, st1) = ABD_GenerateTimestamp current st;
          final_timestamp = std_max client_timestamp server_timestamp;
          st2 = st1\<lparr>abd_store := (abd_store st1)(key \<mapsto>
                   \<lparr>entry_value = val, entry_timestamp = final_timestamp\<rparr>)\<rparr>
      in (\<lparr>write_success = True, write_timestamp = final_timestamp\<rparr>, st2))"

definition ABD_GetTimestamp :: "string \<Rightarrow> ABDProtocol \<Rightarrow> int64" where
  "ABD_GetTimestamp key st =
     (case abd_store st key of Some it \<Rightarrow> entry_timestamp it | None \<Rightarrow> 0)"

section \<open>The blocking server register (protocol/blocking.cpp, protocol/blocking.h)\<close>

record LockResult =
  lock_granted :: bool
  lock_timestamp :: int64

record LockEntry =
  owner_id :: int32
  acquired_at :: time_point

record BlockingProtocol =
  blk_store :: "string \<rightharpoonup> ValueEntry"
  blk_locks :: "string \<rightharpoonup> LockEntry"
  blk_last_timestamp :: int64

definition Blocking_init :: BlockingProtocol where
  "Blocking_init = \<lparr>blk_store = Map.empty, blk_locks = Map.empty, blk_last_timestamp = 0\<rparr>"

definition LOCK_TIMEOUT_SECONDS :: int where
  "LOCK_TIMEOUT_SECONDS = 30"

text \<open>
  \<^verbatim>\<open>duration_cast<seconds>\<close> of a tick count: integer division by the ticks of one
  second, rounding towards zero as C++ does.
\<close>

definition ticks_per_second :: int where
  "ticks_per_second = 1000000000"

definition duration_cast_seconds :: "int \<Rightarrow> int" where
  "duration_cast_seconds d =
     (if 0 \<le> d then d div ticks_per_second else - ((- d) div ticks_per_second))"

text \<open>The constructor \<^verbatim>\<open>LockEntry(int32_t id)\<close> reads the steady clock: \<open>created\<close>.\<close>

definition LockEntry_new :: "int32 \<Rightarrow> time_point \<Rightarrow> LockEntry" where
  "LockEntry_new client_id created = \<lparr>owner_id = client_id, acquired_at = created\<rparr>"

text \<open>
  \<^verbatim>\<open>BlockingProtocol::AcquireLock\<close>. \<open>wall\<close> is the wall clock in milliseconds that
  ends up in the result (the reading stored first is overwritten in every branch),
  \<open>now\<close> the steady clock read for the age of an existing entry, \<open>created\<close> the
  steady clock read by the constructor of a new entry.
\<close>

definition Blocking_AcquireLock ::
  "int64 \<Rightarrow> time_point \<Rightarrow> time_point \<Rightarrow> string \<Rightarrow> int32 \<Rightarrow> BlockingProtocol
     \<Rightarrow> LockResult \<times> BlockingProtocol" where
  "Blocking_AcquireLock wall now created key client_id st =
     (let result = \<lparr>lock_granted = False, lock_timestamp = wall\<rparr>
      in case blk_locks st key of
           Some lock_it \<Rightarrow>
             (let elapsed = duration_cast_seconds (now - acquired_at lock_it)
              in if LOCK_TIMEOUT_SECONDS < elapsed
                 then (result\<lparr>lock_granted := True, lock_timestamp := wall\<rparr>,
                       st\<lparr>blk_locks := ((blk_locks st)(key := None))
                                            (key \<mapsto> LockEntry_new client_id created)\<rparr>)
                 else if owner_id lock_it = client_id
                 then (result\<lparr>lock_granted := True, lock_timestamp := wall\<rparr>, st)
                 else (result\<lparr>lock_granted := False, lock_timestamp := wall\<rparr>, st))
         | None \<Rightarrow>
             (result\<lparr>lock_granted := True, lock_timestamp := wall\<rparr>,
              st\<lparr>blk_locks := (blk_locks st)(key \<mapsto> LockEntry_new client_id created)\<rparr>))"

definition Blocking_ReleaseLock ::
  "string \<Rightarrow> int32 \<Rightarrow> BlockingProtocol \<Rightarrow> bool \<times> BlockingProtocol" where
  "Blocking_ReleaseLock key client_id st =
     (case blk_locks st key of
        Some lock_it \<Rightarrow>
          if owner_id lock_it = client_id
          then (True, st\<lparr>blk_locks := (blk_locks st)(key := None)\<rparr>)
          else (False, st)
      | None \<Rightarrow> (False, st))"

text \<open>
  The guard of \<^verbatim>\<open>Read\<close> and \<^verbatim>\<open>Write\<close>:
  \<^verbatim>\<open>lock_it == locks_.end() || lock_it->second.owner_id != client_id\<close>.
\<close>

definition lock_not_held :: "BlockingProtocol \<Rightarrow> string \<Rightarrow> int32 \<Rightarrow> bool" where
  "lock_not_held st key client_id =
     (case blk_locks st key of None \<Rightarrow> True | Some lock_it \<Rightarrow> owner_id lock_it \<noteq> client_id)"

definition Blocking_GetLockOwner :: "string \<Rightarrow> BlockingProtocol \<Rightarrow> int32" where
  "Blocking_GetLockOwner key st =
     (case blk_locks st key of Some lock_it \<Rightarrow> owner_id lock_it | None \<Rightarrow> - 1)"

definition Blocking_GetTimestamp :: "string \<Rightarrow> BlockingProtocol \<Rightarrow> int64" where
  "Blocking_GetTimestamp key st =
     (case blk_store st key of Some it \<Rightarrow> entry_timestamp it | None \<Rightarrow> 0)"

definition Blocking_Read :: "string \<Rightarrow> int32 \<Rightarrow> BlockingProtocol \<Rightarrow> ReadResult" where
  "Blocking_Read key client_id st =
     (let result = \<lparr>read_value = [], read_timestamp = 0, read_success = False\<rparr>
      in if lock_not_held st key client_id
         then result\<lparr>read_success := False\<rparr>
         else case blk_store st key of
                Some it \<Rightarrow> result\<lparr>read_value := entry_value it,
                                   read_timestamp := entry_timestamp it,
                                   read_success := True\<rparr>
              | None \<Rightarrow> result\<lparr>read_value := [], read_timestamp := 0,
                                read_success := True\<rparr>)"

definition Blocking_GenerateTimestamp ::
  "int64 \<Rightarrow> BlockingProtocol \<Rightarrow> int64 \<times> BlockingProtocol" where
  "Blocking_GenerateTimestamp current st =
     (let st' = (if blk_last_timestamp st <s current
                 then st\<lparr>blk_last_timestamp := current\<rparr>
                 else st\<lparr>blk_last_timestamp := blk_last_timestamp st + 1\<rparr>)
      in (blk_last_timestamp st', st'))"

text \<open>
  \<^verbatim>\<open>BlockingProtocol::Write\<close>. A rejected write returns a \<^verbatim>\<open>WriteResult\<close> whose
  \<^verbatim>\<open>timestamp\<close> was never assigned; \<open>uninit\<close> stands for whatever that field holds.
\<close>

definition Blocking_Write ::
  "int64 \<Rightarrow> int64 \<Rightarrow> string \<Rightarrow> string \<Rightarrow> int64 \<Rightarrow> int32 \<Rightarrow> BlockingProtocol
     \<Rightarrow> WriteResult \<times> BlockingProtocol" where
  "Blocking_Write current uninit key val client_timestamp client_id st =
     (let result = \<lparr>write_success = False, write_timestamp = uninit\<rparr>
      in if lock_not_held st key client_id
         then (result\<lparr>write_success := False\<rparr>, st)
         else
           (let (server_timestamp, st1) = Blocking_GenerateTimestamp current st;
                final_timestamp = std_max client_timestamp server_timestamp;
                st2 = st1\<lparr>blk_store := (blk_store st1)(key \<mapsto>
                         \<lparr>entry_value = val, entry_timestamp = final_timestamp\<rparr>)\<rparr>
            in (result\<lparr>write_success := True, write_timestamp := final_timestamp\<rparr>, st2)))"

section \<open>Configuration (common/config.h, common/config.cpp)\<close>

record ServerInfo =
  info_id :: int32
  info_host :: string
  info_port :: int32

datatype ProtocolType = ABD | BLOCKING

record Config =
  servers :: "ServerInfo list"
  protocol :: ProtocolType
  read_quorum :: int32
  write_quorum :: int32
  num_replicas :: int32
  server_id :: int32
  port :: int32

text \<open>
  The casts between \<^verbatim>\<open>int32_t\<close> and the 64-bit \<^verbatim>\<open>size_t\<close>:
  \<^verbatim>\<open>static_cast<size_t>(q)\<close> sign-extends, so a negative quorum becomes a huge size;
  \<^verbatim>\<open>static_cast<int32_t>(v.size())\<close> keeps the low 32 bits.
\<close>

definition size_t_of_int32 :: "int32 \<Rightarrow> nat" where
  "size_t_of_int32 q = nat (sint q mod 2 ^ 64)"

definition int32_of_size_t :: "nat \<Rightarrow> int32" where
  "int32_of_size_t n = word_of_nat n"



section \<open>The ABD client engine (client/abd_client_impl.cpp)\<close>

text \<open>
  The transport is outside the model. What a server answers to the RPC sent to
  the replica with index \<open>i\<close> is an input: \<open>None\<close> when the call's status is not OK
  (server down, deadline exceeded), \<open>Some reply\<close> otherwise. The client's operations
  are modelled one at a time, as a single thread runs them. The calls of
  \<^verbatim>\<open>UpdateTimestamp\<close> made by the parallel tasks of one write are serialised by
  the mutex in the order in which the replies arrive; that order is an input too.
\<close>

record ABDClientImpl =
  abd_config :: Config
  abd_client_timestamp :: int64

definition ABDClient_UpdateTimestamp :: "int64 \<Rightarrow> ABDClientImpl \<Rightarrow> ABDClientImpl" where
  "ABDClient_UpdateTimestamp ts st =
     (let st1 = (if abd_client_timestamp st <s ts
                 then st\<lparr>abd_client_timestamp := ts\<rparr> else st)
      in st1\<lparr>abd_client_timestamp := abd_client_timestamp st1 + 1\<rparr>)"

definition ABDClient_GetCurrentTimestamp :: "ABDClientImpl \<Rightarrow> int64" where
  "ABDClient_GetCurrentTimestamp st = abd_client_timestamp st"

text \<open>
  \<^verbatim>\<open>ReadFromServer\<close>: on a failed call the response keeps \<^verbatim>\<open>success = false\<close>, an
  empty value and a \<^verbatim>\<open>timestamp\<close> that was never assigned (\<open>uninit\<close>).
\<close>

definition ABDClient_ReadFromServer :: "int64 \<Rightarrow> ReadResult option \<Rightarrow> ReadResult" where
  "ABDClient_ReadFromServer uninit rpc =
     (let response = \<lparr>read_value = [], read_timestamp = uninit, read_success = False\<rparr>
      in case rpc of
           Some reply \<Rightarrow> response\<lparr>read_value := read_value reply,
                                   read_timestamp := read_timestamp reply,
                                   read_success := read_success reply\<rparr>
         | None \<Rightarrow> response)"

definition ABDClient_WriteToServer ::
  "WriteResult option \<Rightarrow> ABDClientImpl \<Rightarrow> bool \<times> ABDClientImpl" where
  "ABDClient_WriteToServer rpc st =
     (case rpc of
        Some reply \<Rightarrow>
          if write_success reply
          then (True, ABDClient_UpdateTimestamp (write_timestamp reply) st)
          else (False, st)
      | None \<Rightarrow> (False, st))"

text \<open>
  The loop that takes the responses in index order, keeps the successful ones and
  leaves at the quorum (\<^verbatim>\<open>break\<close>).
\<close>

fun collect_responses :: "int32 \<Rightarrow> ReadResult list \<Rightarrow> ReadResult list \<Rightarrow> ReadResult list" where
  "collect_responses quorum [] responses = responses"
| "collect_responses quorum (response # rest) responses =
     (if read_success response
      then (let responses' = responses @ [response]
            in if quorum \<le>s int32_of_size_t (length responses') then responses'
               else collect_responses quorum rest responses')
      else collect_responses quorum rest responses)"

text \<open>
  \<^verbatim>\<open>std::max_element\<close> with the comparison on timestamps: the first of the largest
  elements; \<open>best\<close> is the largest so far.
\<close>

fun max_element :: "ReadResult \<Rightarrow> ReadResult list \<Rightarrow> ReadResult" where
  "max_element best [] = best"
| "max_element best (r # rs) =
     (if read_timestamp best <s read_timestamp r then max_element r rs
      else max_element best rs)"

text \<open>
  The write-back loop of \<^verbatim>\<open>Read\<close>:
  \<^verbatim>\<open>for (i = 0; i < stubs.size() && written < write_quorum; i++)\<close>.
\<close>

fun ABDClient_write_back ::
  "int32 \<Rightarrow> WriteResult option list \<Rightarrow> int32 \<Rightarrow> ABDClientImpl \<Rightarrow> int32 \<times> ABDClientImpl" where
  "ABDClient_write_back quorum [] written st = (written, st)"
| "ABDClient_write_back quorum (rpc # rest) written st =
     (if written <s quorum
      then (case ABDClient_WriteToServer rpc st of
              (True, st') \<Rightarrow> ABDClient_write_back quorum rest (written + 1) st'
            | (False, st') \<Rightarrow> ABDClient_write_back quorum rest written st')
      else (written, st))"

text \<open>
  What an operation of a client returns to the model: the boolean result, the value
  a read stores in its out-parameter (\<open>None\<close> when it is left untouched), the
  timestamp the operation generated for its write requests, the source's
  \<^verbatim>\<open>timestamp\<close> or \<^verbatim>\<open>write_timestamp\<close> (\<open>None\<close> when the operation returned before
  generating one), the indices of the replicas to which it sent \<^verbatim>\<open>ReleaseLock\<close>
  (blocking client only), and the client afterwards.
\<close>

record 'c op_result =
  op_ok :: bool
  op_value :: "string option"
  op_issued :: "int64 option"
  op_released :: "nat list"
  op_client :: 'c

text \<open>
  \<^verbatim>\<open>ABDClientImpl::Read\<close>. With a read quorum below 1 and no successful response the
  source dereferences the end iterator; the model returns \<open>None\<close> there.
\<close>

definition ABDClient_Read ::
  "int64 \<Rightarrow> (nat \<Rightarrow> ReadResult option) \<Rightarrow> (nat \<Rightarrow> WriteResult option) \<Rightarrow> ABDClientImpl
     \<Rightarrow> ABDClientImpl op_result option" where
  "ABDClient_Read uninit read_rpc write_rpc st =
     (let read_q = read_quorum (abd_config st);
          n = length (servers (abd_config st));
          failed = \<lparr>op_ok = False, op_value = None, op_issued = None, op_released = [],
                    op_client = st\<rparr>
      in if n < size_t_of_int32 read_q then Some failed
         else
           (let responses = collect_responses read_q
                              (map (\<lambda>i. ABDClient_ReadFromServer uninit (read_rpc i)) [0..<n]) []
            in if int32_of_size_t (length responses) <s read_q then Some failed
               else case responses of
                  [] \<Rightarrow> None
                | r # rs \<Rightarrow>
                   (let max_response = max_element r rs;
                        max_value = read_value max_response;
                        max_timestamp = read_timestamp max_response;
                        write_timestamp =
                          std_max max_timestamp (ABDClient_GetCurrentTimestamp st) + 1;
                        st1 = ABDClient_UpdateTimestamp write_timestamp st;
                        write_q = write_quorum (abd_config st);
                        (written, st2) =
                          ABDClient_write_back write_q (map write_rpc [0..<n]) 0 st1
                    in if written <s write_q
                       then Some \<lparr>op_ok = False, op_value = None,
                                  op_issued = Some write_timestamp, op_released = [],
                                  op_client = st2\<rparr>
                       else Some \<lparr>op_ok = True, op_value = Some max_value,
                                  op_issued = Some write_timestamp, op_released = [],
                                  op_client = st2\<rparr>)))"

text \<open>
  \<^verbatim>\<open>ABDClientImpl::Write\<close>. Every replica is sent the write by a task of its own,
  and the function returns only when all tasks have ended (the futures are
  destroyed at the return). \<open>arrival\<close> is the order in which the tasks get their
  replies and run \<^verbatim>\<open>WriteToServer\<close>'s \<^verbatim>\<open>UpdateTimestamp\<close> under the mutex: a
  permutation of the replica indices, chosen by the network and the scheduler.
  The clock after the operation is what the tasks leave in that order
  (\<open>ABDClient_write_all\<close> over \<open>arrival\<close>). What \<^verbatim>\<open>futures[i].get()\<close> returns does
  not depend on the clock; the main thread counts these results in index order
  until the quorum (\<open>count_acknowledgements\<close>).
\<close>

fun ABDClient_write_all ::
  "WriteResult option list \<Rightarrow> ABDClientImpl \<Rightarrow> bool list \<times> ABDClientImpl" where
  "ABDClient_write_all [] st = ([], st)"
| "ABDClient_write_all (rpc # rest) st =
     (let (ok, st1) = ABDClient_WriteToServer rpc st;
          (oks, st2) = ABDClient_write_all rest st1
      in (ok # oks, st2))"

fun count_acknowledgements :: "int32 \<Rightarrow> bool list \<Rightarrow> int32 \<Rightarrow> int32" where
  "count_acknowledgements quorum [] written = written"
| "count_acknowledgements quorum (ok # rest) written =
     (if ok
      then (if quorum \<le>s written + 1 then written + 1
            else count_acknowledgements quorum rest (written + 1))
      else count_acknowledgements quorum rest written)"

definition ABDClient_Write ::
  "nat list \<Rightarrow> (nat \<Rightarrow> WriteResult option) \<Rightarrow> ABDClientImpl
     \<Rightarrow> ABDClientImpl op_result" where
  "ABDClient_Write arrival write_rpc st =
     (let write_q = write_quorum (abd_config st);
          n = length (servers (abd_config st))
      in if n < size_t_of_int32 write_q
         then \<lparr>op_ok = False, op_value = None, op_issued = None, op_released = [],
               op_client = st\<rparr>
         else
           (let timestamp = ABDClient_GetCurrentTimestamp st + 1;
                st1 = ABDClient_UpdateTimestamp timestamp st;
                st2 = snd (ABDClient_write_all (map write_rpc arrival) st1);
                oks = fst (ABDClient_write_all (map write_rpc [0..<n]) st1);
                written = count_acknowledgements write_q oks 0
            in \<lparr>op_ok = \<not> written <s write_q, op_value = None,
                 op_issued = Some timestamp, op_released = [], op_client = st2\<rparr>))"

section \<open>The blocking client engine (client/blocking_client_impl.cpp)\<close>

record BlockingClientImpl =
  blk_config :: Config
  blk_client_id :: int32
  blk_client_timestamp :: int64

definition BlockingClient_UpdateTimestamp ::
  "int64 \<Rightarrow> BlockingClientImpl \<Rightarrow> BlockingClientImpl" where
  "BlockingClient_UpdateTimestamp ts st =
     (let st1 = (if blk_client_timestamp st <s ts
                 then st\<lparr>blk_client_timestamp := ts\<rparr> else st)
      in st1\<lparr>blk_client_timestamp := blk_client_timestamp st1 + 1\<rparr>)"

definition BlockingClient_GetCurrentTimestamp :: "BlockingClientImpl \<Rightarrow> int64" where
  "BlockingClient_GetCurrentTimestamp st = blk_client_timestamp st"

definition BlockingClient_AcquireLockFromServer ::
  "int64 \<Rightarrow> LockResult option \<Rightarrow> LockResult" where
  "BlockingClient_AcquireLockFromServer uninit rpc =
     (let response = \<lparr>lock_granted = False, lock_timestamp = uninit\<rparr>
      in case rpc of
           Some reply \<Rightarrow> response\<lparr>lock_granted := lock_granted reply,
                                   lock_timestamp := lock_timestamp reply\<rparr>
         | None \<Rightarrow> response)"

definition BlockingClient_ReadFromServer :: "int64 \<Rightarrow> ReadResult option \<Rightarrow> ReadResult" where
  "BlockingClient_ReadFromServer uninit rpc =
     (let response = \<lparr>read_value = [], read_timestamp = uninit, read_success = False\<rparr>
      in case rpc of
           Some reply \<Rightarrow> response\<lparr>read_value := read_value reply,
                                   read_timestamp := read_timestamp reply,
                                   read_success := read_success reply\<rparr>
         | None \<Rightarrow> response)"

definition BlockingClient_WriteToServer ::
  "WriteResult option \<Rightarrow> BlockingClientImpl \<Rightarrow> bool \<times> BlockingClientImpl" where
  "BlockingClient_WriteToServer rpc st =
     (case rpc of
        Some reply \<Rightarrow>
          if write_success reply
          then (True, BlockingClient_UpdateTimestamp (write_timestamp reply) st)
          else (False, st)
      | None \<Rightarrow> (False, st))"

text \<open>
  The loop over \<^verbatim>\<open>lock_futures\<close>: the responses are taken in index order, the index
  \<open>i\<close> of a granting replica is appended to \<^verbatim>\<open>locked_server_indices\<close>, and the loop
  is left (\<^verbatim>\<open>break\<close>) as soon as the quorum is reached. The futures behind the
  break are never read; their tasks still run to the end, because the destructor
  of a future made by \<^verbatim>\<open>std::async\<close> waits for its task.
\<close>

fun collect_locks :: "int32 \<Rightarrow> LockResult list \<Rightarrow> nat \<Rightarrow> nat list \<Rightarrow> nat list" where
  "collect_locks quorum [] i locked = locked"
| "collect_locks quorum (lock_response # rest) i locked =
     (if lock_granted lock_response
      then (let locked' = locked @ [i]
            in if quorum \<le>s int32_of_size_t (length locked') then locked'
               else collect_locks quorum rest (Suc i) locked')
      else collect_locks quorum rest (Suc i) locked)"

text \<open>Phase 2 of \<^verbatim>\<open>Write\<close>: the locked replicas are written one after the other.\<close>

fun BlockingClient_write_locked ::
  "(nat \<Rightarrow> WriteResult option) \<Rightarrow> nat list \<Rightarrow> int32 \<Rightarrow> BlockingClientImpl
     \<Rightarrow> int32 \<times> BlockingClientImpl" where
  "BlockingClient_write_locked write_rpc [] written st = (written, st)"
| "BlockingClient_write_locked write_rpc (idx # rest) written st =
     (case BlockingClient_WriteToServer (write_rpc idx) st of
        (True, st') \<Rightarrow> BlockingClient_write_locked write_rpc rest (written + 1) st'
      | (False, st') \<Rightarrow> BlockingClient_write_locked write_rpc rest written st')"

text \<open>
  \<^verbatim>\<open>BlockingClientImpl::Write\<close>. Every release loop of the source runs over
  \<^verbatim>\<open>locked_server_indices\<close> and ignores what \<^verbatim>\<open>ReleaseLockFromServer\<close> returns, so
  the replicas that are sent \<^verbatim>\<open>ReleaseLock\<close> are exactly that list.
\<close>

definition BlockingClient_Write ::
  "int64 \<Rightarrow> (nat \<Rightarrow> LockResult option) \<Rightarrow> (nat \<Rightarrow> WriteResult option) \<Rightarrow> BlockingClientImpl
     \<Rightarrow> BlockingClientImpl op_result" where
  "BlockingClient_Write uninit lock_rpc write_rpc st =
     (let write_q = write_quorum (blk_config st);
          n = length (servers (blk_config st))
      in if n < size_t_of_int32 write_q
         then \<lparr>op_ok = False, op_value = None, op_issued = None, op_released = [],
               op_client = st\<rparr>
         else
           (let locked_server_indices = collect_locks write_q
                  (map (\<lambda>i. BlockingClient_AcquireLockFromServer uninit (lock_rpc i)) [0..<n])
                  0 []
            in if int32_of_size_t (length locked_server_indices) <s write_q
               then \<lparr>op_ok = False, op_value = None, op_issued = None,
                     op_released = locked_server_indices, op_client = st\<rparr>
               else
                 (let timestamp = BlockingClient_GetCurrentTimestamp st + 1;
                      st1 = BlockingClient_UpdateTimestamp timestamp st;
                      (written, st2) =
                        BlockingClient_write_locked write_rpc locked_server_indices 0 st1
                  in \<lparr>op_ok = \<not> written <s write_q, op_value = None,
                       op_issued = Some timestamp, op_released = locked_server_indices,
                       op_client = st2\<rparr>)))"

text \<open>\<^verbatim>\<open>BlockingClientImpl::Read\<close>: no write-back, and the clock is not touched.\<close>

definition BlockingClient_Read ::
  "int64 \<Rightarrow> (nat \<Rightarrow> LockResult option) \<Rightarrow> (nat \<Rightarrow> ReadResult option) \<Rightarrow> BlockingClientImpl
     \<Rightarrow> BlockingClientImpl op_result" where
  "BlockingClient_Read uninit lock_rpc read_rpc st =
     (let read_q = read_quorum (blk_config st);
          n = length (servers (blk_config st))
      in if n < size_t_of_int32 read_q
         then \<lparr>op_ok = False, op_value = None, op_issued = None, op_released = [],
               op_client = st\<rparr>
         else
           (let locked_server_indices = collect_locks read_q
                  (map (\<lambda>i. BlockingClient_AcquireLockFromServer uninit (lock_rpc i)) [0..<n])
                  0 []
            in if int32_of_size_t (length locked_server_indices) <s read_q
               then \<lparr>op_ok = False, op_value = None, op_issued = None,
                     op_released = locked_server_indices, op_client = st\<rparr>
               else
                 (let responses = filter read_success
                        (map (\<lambda>idx. BlockingClient_ReadFromServer uninit (read_rpc idx))
                           locked_server_indices)
                  in case responses of
                       [] \<Rightarrow> \<lparr>op_ok = False, op_value = None, op_issued = None,
                               op_released = locked_server_indices, op_client = st\<rparr>
                     | r # rs \<Rightarrow>
                         \<lparr>op_ok = True, op_value = Some (read_value (max_element r rs)),
                          op_issued = None, op_released = locked_server_indices,
                          op_client = st\<rparr>)))"

section \<open>The deployment of the scenarios\<close>

text \<open>
  The configuration the repository's tests and the scenarios of its specification
  use: three replicas, read quorum 2, write quorum 2.
\<close>

definition three_replicas :: Config where
  "three_replicas =
     \<lparr>servers = [\<lparr>info_id = 0, info_host = ''localhost'', info_port = 5001\<rparr>,
                 \<lparr>info_id = 1, info_host = ''localhost'', info_port = 5002\<rparr>,
                 \<lparr>info_id = 2, info_host = ''localhost'', info_port = 5003\<rparr>],
      protocol = ABD, read_quorum = 2, write_quorum = 2, num_replicas = 3,
      server_id = 0, port = 0\<rparr>"

section \<open>Runs of a replica\<close>

text \<open>
  The same client asking a replica for the lock of a key again and again: one
  call of \<^verbatim>\<open>AcquireLock\<close> for each triple of clock readings, the answers collected
  in order.
\<close>

fun reacquire ::
  "string \<Rightarrow> int32 \<Rightarrow> (int64 \<times> time_point \<times> time_point) list \<Rightarrow> BlockingProtocol
     \<Rightarrow> bool list \<times> BlockingProtocol" where
  "reacquire key client_id [] st = ([], st)"
| "reacquire key client_id ((wall, now, created) # calls) st =
     (let (result, st1) = Blocking_AcquireLock wall now created key client_id st;
          (granted, st2) = reacquire key client_id calls st1
      in (lock_granted result # granted, st2))"

section \<open>Properties of the ABD server register\<close>

lemma sint64_bounds: "- (2 ^ 63) \<le> sint (c :: int64) \<and> sint c < 2 ^ 63"
  using sint_ge [of c] sint_lt [of c] by simp

lemma sint64_Suc:
  assumes "sint (c :: int64) < 2 ^ 63 - 1"
  shows "sint (c + 1) = sint c + 1"
proof -
  have "sint (c + 1) = signed_take_bit 63 (sint c + 1)"
    by (simp add: sint_word_add)
  also have "\<dots> = sint c + 1"
    using assms sint64_bounds [of c] by (intro signed_take_bit_int_eq_self) simp_all
  finally show ?thesis .
qed

lemma std_max_sint: "sint (std_max a b) = max (sint a) (sint b)"
  by (simp add: std_max_def word_sless_alt max_def)

lemmas signed_compare = word_sless_alt word_sle_eq

text \<open>
  Claim C8. \<^verbatim>\<open>ABDProtocol::Read\<close> returns the stored value and timestamp of a key
  that is present, the empty string and timestamp 0 for a key that is absent,
  reports success in both cases, and its result does not depend on the client's
  timestamp.
\<close>

theorem ABD_Read_stored_or_empty:
  "ABD_Read key client_timestamp st =
     (case abd_store st key of
        Some e \<Rightarrow> \<lparr>read_value = entry_value e, read_timestamp = entry_timestamp e,
                    read_success = True\<rparr>
      | None \<Rightarrow> \<lparr>read_value = [], read_timestamp = 0, read_success = True\<rparr>)
   \<and> ABD_Read key client_timestamp st = ABD_Read key other_timestamp st"
  by (simp add: ABD_Read_def split: option.split)

text \<open>
  Claim C3. \<^verbatim>\<open>ABDProtocol::Write\<close> accepts every write whatever the store holds:
  with \<open>s\<close> the timestamp that \<^verbatim>\<open>GenerateTimestamp\<close> produces for this call, the
  result reports success and carries \<open>max client_ts s\<close>, and afterwards the entry of
  the key is the written value with that same timestamp, the other keys keeping
  their entries.
\<close>

theorem ABD_Write_accepts_with_max:
  "write_success (fst (ABD_Write current key val client_ts st)) = True
   \<and> write_timestamp (fst (ABD_Write current key val client_ts st))
       = std_max client_ts (fst (ABD_GenerateTimestamp current st))
   \<and> abd_store (snd (ABD_Write current key val client_ts st))
       = (abd_store st)(key \<mapsto> \<lparr>entry_value = val,
            entry_timestamp = std_max client_ts (fst (ABD_GenerateTimestamp current st))\<rparr>)
   \<and> sint (std_max client_ts (fst (ABD_GenerateTimestamp current st)))
       = max (sint client_ts) (sint (fst (ABD_GenerateTimestamp current st)))
   \<and> fst (ABD_GenerateTimestamp current st)
       = (if abd_last_timestamp st <s current then current else abd_last_timestamp st + 1)"
  by (simp add: ABD_Write_def ABD_GenerateTimestamp_def Let_def split_beta std_max_sint)

text \<open>
  Claim C1. The timestamp stored for a key can go down. A replica whose wall clock
  reads 1000 takes \<open>Write(k, a, 5000)\<close> from a client whose clock is ahead and
  stores timestamp 5000; the generator only moves to 1000. One millisecond later
  \<open>Write(k, b, 1001)\<close> is stored with timestamp \<open>max 1001 1001 = 1001\<close>, below
  the 5000 it replaces. The blocking replica does the same for the holder of the
  lock.
\<close>

theorem Write_stored_timestamp_decreases:
  "ABD_GetTimestamp ''k'' (snd (ABD_Write 1000 ''k'' ''a'' 5000 ABD_init)) = 5000
   \<and> ABD_GetTimestamp ''k''
        (snd (ABD_Write 1001 ''k'' ''b'' 1001
           (snd (ABD_Write 1000 ''k'' ''a'' 5000 ABD_init)))) = 1001
   \<and> Blocking_GetTimestamp ''k''
        (snd (Blocking_Write 1000 0 ''k'' ''a'' 5000 7
           (snd (Blocking_AcquireLock 999 0 0 ''k'' 7 Blocking_init)))) = 5000
   \<and> Blocking_GetTimestamp ''k''
        (snd (Blocking_Write 1001 0 ''k'' ''b'' 1001 7
           (snd (Blocking_Write 1000 0 ''k'' ''a'' 5000 7
              (snd (Blocking_AcquireLock 999 0 0 ''k'' 7 Blocking_init)))))) = 1001
   \<and> (1001 :: int64) <s 5000"
  by (simp add: ABD_Write_def ABD_GenerateTimestamp_def ABD_init_def ABD_GetTimestamp_def
      Blocking_Write_def Blocking_GenerateTimestamp_def Blocking_AcquireLock_def
      Blocking_init_def Blocking_GetTimestamp_def LockEntry_new_def lock_not_held_def
      std_max_def Let_def signed_compare)

section \<open>Raising the clocks\<close>

lemma ABD_GenerateTimestamp_increases:
  assumes "sint (abd_last_timestamp st) < 2 ^ 63 - 1"
  shows "abd_last_timestamp st <s fst (ABD_GenerateTimestamp current st)"
    and "current \<le>s fst (ABD_GenerateTimestamp current st)"
  using assms sint64_Suc [of "abd_last_timestamp st"]
  by (auto simp: ABD_GenerateTimestamp_def Let_def signed_compare)

lemma ABD_GenerateTimestamp_state:
  "abd_last_timestamp (snd (ABD_GenerateTimestamp current st))
     = fst (ABD_GenerateTimestamp current st)"
  by (simp add: ABD_GenerateTimestamp_def Let_def)

lemma ABD_Write_last_timestamp:
  "abd_last_timestamp (snd (ABD_Write current key val client_ts st))
     = fst (ABD_GenerateTimestamp current st)"
  by (simp add: ABD_Write_def Let_def split_beta ABD_GenerateTimestamp_state)

lemma ABDClient_UpdateTimestamp_above:
  assumes "sint ts < 2 ^ 63 - 1" and "sint (abd_client_timestamp st) < 2 ^ 63 - 1"
  shows "ts <s abd_client_timestamp (ABDClient_UpdateTimestamp ts st)"
    and "abd_client_timestamp st <s abd_client_timestamp (ABDClient_UpdateTimestamp ts st)"
  using assms sint64_Suc [of ts] sint64_Suc [of "abd_client_timestamp st"]
  by (auto simp: ABDClient_UpdateTimestamp_def Let_def signed_compare)

text \<open>
  Claim C7, as the claim states it, fails on the server: a replica at the initial
  state whose wall clock reads 5 processes \<open>Write(k, v, 100)\<close> and its generator
  state is 5 afterwards, not at least 100.
\<close>

theorem ABD_Write_generator_below_client_ts:
  "\<not> (100 \<le>s abd_last_timestamp (snd (ABD_Write 5 ''k'' ''v'' 100 ABD_init)))"
  by (simp add: ABD_Write_def ABD_GenerateTimestamp_def ABD_init_def std_max_def Let_def
      signed_compare)

text \<open>
  Claim C7, amended. After the ABD client's \<open>UpdateTimestamp(t)\<close> the client
  clock is strictly greater than \<open>t\<close> and than its value before, provided
  neither is the largest \<open>int64\<close>. After the ABD server's
  \<open>Write(key, value, client_ts)\<close> the timestamp the write returns, which is the
  one it stores for the key, is at least \<open>client_ts\<close>, and the generator state is
  strictly greater than before (provided that was not the largest \<open>int64\<close>) and
  at least the wall clock.
\<close>

theorem clocks_after_observation:
  assumes "sint t < 2 ^ 63 - 1"
    and "sint (abd_client_timestamp c) < 2 ^ 63 - 1"
    and "sint (abd_last_timestamp st) < 2 ^ 63 - 1"
  shows "t <s abd_client_timestamp (ABDClient_UpdateTimestamp t c)
    \<and> abd_client_timestamp c <s abd_client_timestamp (ABDClient_UpdateTimestamp t c)
    \<and> client_ts \<le>s write_timestamp (fst (ABD_Write current key val client_ts st))
    \<and> ABD_GetTimestamp key (snd (ABD_Write current key val client_ts st))
        = write_timestamp (fst (ABD_Write current key val client_ts st))
    \<and> abd_last_timestamp st <s abd_last_timestamp (snd (ABD_Write current key val client_ts st))
    \<and> current \<le>s abd_last_timestamp (snd (ABD_Write current key val client_ts st))"
proof -
  have "client_ts \<le>s write_timestamp (fst (ABD_Write current key val client_ts st))"
    by (simp add: ABD_Write_def Let_def split_beta std_max_def signed_compare)
  moreover have "ABD_GetTimestamp key (snd (ABD_Write current key val client_ts st))
        = write_timestamp (fst (ABD_Write current key val client_ts st))"
    by (simp add: ABD_Write_def ABD_GetTimestamp_def Let_def split_beta)
  ultimately show ?thesis
    using ABDClient_UpdateTimestamp_above [OF assms(1,2)]
      ABD_GenerateTimestamp_increases [OF assms(3), of current]
    by (simp add: ABD_Write_last_timestamp)
qed

theorem clocks_after_observation_witness:
  "abd_client_timestamp (ABDClient_UpdateTimestamp 1000
       \<lparr>abd_config = three_replicas, abd_client_timestamp = 500\<rparr>) = 1001
   \<and> (1000 :: int64) <s 1001
   \<and> write_timestamp (fst (ABD_Write 5 ''k'' ''v'' 100 ABD_init)) = 100
   \<and> ABD_GetTimestamp ''k'' (snd (ABD_Write 5 ''k'' ''v'' 100 ABD_init)) = 100
   \<and> abd_last_timestamp (snd (ABD_Write 5 ''k'' ''v'' 100 ABD_init)) = 5
   \<and> (0 :: int64) <s 5"
  using clocks_after_observation
      [of 1000 "\<lparr>abd_config = three_replicas, abd_client_timestamp = 500\<rparr>"
        ABD_init 100 5 "''k''" "''v''"]
  by (simp add: ABD_Write_def ABD_GenerateTimestamp_def ABD_init_def ABD_GetTimestamp_def
      std_max_def Let_def ABDClient_UpdateTimestamp_def signed_compare)

section \<open>Properties of the blocking server register\<close>

text \<open>
  Claim C5. \<^verbatim>\<open>BlockingProtocol::Read\<close> and \<^verbatim>\<open>BlockingProtocol::Write\<close> succeed exactly
  when the lock table names the caller as the owner of the key's lock. A
  successful read returns the stored entry, or the empty string with timestamp 0
  when the key is absent; a successful write stores and returns
  \<open>max client_ts s\<close>, \<open>s\<close> being the timestamp generated for the call, and leaves
  the lock table alone. For a caller that does not own the lock the write leaves
  the whole replica unchanged and the read carries no data.
\<close>

theorem Blocking_Read_Write_need_lock:
  "read_success (Blocking_Read key cid st) = (map_option owner_id (blk_locks st key) = Some cid)
   \<and> write_success (fst (Blocking_Write current uninit key val cts cid st))
       = (map_option owner_id (blk_locks st key) = Some cid)
   \<and> (map_option owner_id (blk_locks st key) = Some cid \<longrightarrow>
        Blocking_Read key cid st =
          (case blk_store st key of
             Some e \<Rightarrow> \<lparr>read_value = entry_value e, read_timestamp = entry_timestamp e,
                         read_success = True\<rparr>
           | None \<Rightarrow> \<lparr>read_value = [], read_timestamp = 0, read_success = True\<rparr>)
        \<and> write_timestamp (fst (Blocking_Write current uninit key val cts cid st))
            = std_max cts (fst (Blocking_GenerateTimestamp current st))
        \<and> blk_store (snd (Blocking_Write current uninit key val cts cid st))
            = (blk_store st)(key \<mapsto> \<lparr>entry_value = val,
                 entry_timestamp = std_max cts (fst (Blocking_GenerateTimestamp current st))\<rparr>)
        \<and> blk_locks (snd (Blocking_Write current uninit key val cts cid st)) = blk_locks st)
   \<and> (map_option owner_id (blk_locks st key) \<noteq> Some cid \<longrightarrow>
        snd (Blocking_Write current uninit key val cts cid st) = st
        \<and> Blocking_Read key cid st
            = \<lparr>read_value = [], read_timestamp = 0, read_success = False\<rparr>)"
  by (auto simp: Blocking_Read_def Blocking_Write_def Blocking_GenerateTimestamp_def
      lock_not_held_def Let_def split_beta split: option.splits)

theorem Blocking_Read_Write_need_lock_witness:
  "Blocking_Read ''k'' 1
       (Blocking_init\<lparr>blk_locks := [''k'' \<mapsto> \<lparr>owner_id = 1, acquired_at = 0\<rparr>]\<rparr>)
     = \<lparr>read_value = [], read_timestamp = 0, read_success = True\<rparr>
   \<and> blk_store (snd (Blocking_Write 1000 0 ''k'' ''v'' 7 1
       (Blocking_init\<lparr>blk_locks := [''k'' \<mapsto> \<lparr>owner_id = 1, acquired_at = 0\<rparr>]\<rparr>)))
     = [''k'' \<mapsto> \<lparr>entry_value = ''v'', entry_timestamp = 1000\<rparr>]
   \<and> snd (Blocking_Write 1000 0 ''k'' ''v'' 7 2
       (Blocking_init\<lparr>blk_locks := [''k'' \<mapsto> \<lparr>owner_id = 1, acquired_at = 0\<rparr>]\<rparr>))
     = Blocking_init\<lparr>blk_locks := [''k'' \<mapsto> \<lparr>owner_id = 1, acquired_at = 0\<rparr>]\<rparr>
   \<and> Blocking_Read ''k'' 2
       (Blocking_init\<lparr>blk_locks := [''k'' \<mapsto> \<lparr>owner_id = 1, acquired_at = 0\<rparr>]\<rparr>)
     = \<lparr>read_value = [], read_timestamp = 0, read_success = False\<rparr>"
  using Blocking_Read_Write_need_lock [of "''k''" 1
      "Blocking_init\<lparr>blk_locks := [''k'' \<mapsto> \<lparr>owner_id = 1, acquired_at = 0\<rparr>]\<rparr>"
      1000 0 "''v''" 7]
    Blocking_Read_Write_need_lock [of "''k''" 2
      "Blocking_init\<lparr>blk_locks := [''k'' \<mapsto> \<lparr>owner_id = 1, acquired_at = 0\<rparr>]\<rparr>"
      1000 0 "''v''" 7]
  by (simp add: Blocking_init_def Blocking_GenerateTimestamp_def std_max_def Let_def
      signed_compare)

text \<open>
  \<^verbatim>\<open>AcquireLock\<close> compares whole seconds: the age of the entry is cut down to
  seconds before it is compared with the timeout, so an entry counts as timed out
  from an age of 31 seconds on.
\<close>

lemma timed_out_iff:
  "0 \<le> d \<Longrightarrow>
     (LOCK_TIMEOUT_SECONDS < duration_cast_seconds d) = (31 * ticks_per_second \<le> d)"
  by (auto simp: duration_cast_seconds_def LOCK_TIMEOUT_SECONDS_def ticks_per_second_def)

lemma AcquireLock_unlocked:
  assumes "blk_locks st key = None"
  shows "Blocking_AcquireLock wall now created key cid st
           = (\<lparr>lock_granted = True, lock_timestamp = wall\<rparr>,
              st\<lparr>blk_locks := (blk_locks st)(key \<mapsto> \<lparr>owner_id = cid, acquired_at = created\<rparr>)\<rparr>)"
  using assms by (simp add: Blocking_AcquireLock_def Let_def LockEntry_new_def)

lemma AcquireLock_timed_out:
  assumes "blk_locks st key = Some e"
    and "LOCK_TIMEOUT_SECONDS < duration_cast_seconds (now - acquired_at e)"
  shows "Blocking_AcquireLock wall now created key cid st
           = (\<lparr>lock_granted = True, lock_timestamp = wall\<rparr>,
              st\<lparr>blk_locks := (blk_locks st)(key \<mapsto> \<lparr>owner_id = cid, acquired_at = created\<rparr>)\<rparr>)"
  using assms by (simp add: Blocking_AcquireLock_def Let_def LockEntry_new_def)

lemma AcquireLock_reentrant:
  assumes "blk_locks st key = Some e" and "owner_id e = cid"
    and "\<not> LOCK_TIMEOUT_SECONDS < duration_cast_seconds (now - acquired_at e)"
  shows "Blocking_AcquireLock wall now created key cid st
           = (\<lparr>lock_granted = True, lock_timestamp = wall\<rparr>, st)"
  using assms by (simp add: Blocking_AcquireLock_def Let_def)

lemma AcquireLock_denied:
  assumes "blk_locks st key = Some e" and "owner_id e \<noteq> cid"
    and "\<not> LOCK_TIMEOUT_SECONDS < duration_cast_seconds (now - acquired_at e)"
  shows "Blocking_AcquireLock wall now created key cid st
           = (\<lparr>lock_granted = False, lock_timestamp = wall\<rparr>, st)"
  using assms by (simp add: Blocking_AcquireLock_def Let_def)

text \<open>
  Claim C4. A lock held for more than 30 seconds is not always given up. Client 1
  is granted the lock of \<open>k\<close> when the steady clock reads 5 s; client 2 asks when
  it reads 35.5 s. The age of the entry, 30.5 s, exceeds the timeout of 30
  seconds that blocking.h documents (a lock held for more than this many seconds
  can be overtaken), yet the cast has cut the age down to 30, the entry stays and
  the request is denied.
\<close>

theorem AcquireLock_denied_past_30_seconds:
  "Blocking_GetLockOwner ''k''
       (snd (Blocking_AcquireLock 5000 5000000000 5000000000 ''k'' 1 Blocking_init)) = 1
   \<and> 30 * ticks_per_second < 35500000000 - 5000000000
   \<and> \<not> lock_granted (fst (Blocking_AcquireLock 35500 35500000000 35500000000 ''k'' 2
          (snd (Blocking_AcquireLock 5000 5000000000 5000000000 ''k'' 1 Blocking_init))))"
  by (simp add: Blocking_AcquireLock_def Let_def LockEntry_new_def Blocking_init_def
      Blocking_GetLockOwner_def duration_cast_seconds_def LOCK_TIMEOUT_SECONDS_def
      ticks_per_second_def)

lemma reacquire_unchanged:
  assumes "blk_locks st key = Some e" and "owner_id e = cid"
    and "\<forall>(wall, now, created) \<in> set calls.
           \<not> LOCK_TIMEOUT_SECONDS < duration_cast_seconds (now - acquired_at e)"
  shows "reacquire key cid calls st = (replicate (length calls) True, st)"
  using assms
proof (induction calls)
  case Nil
  then show ?case by simp
next
  case (Cons c calls)
  obtain wall now created where c: "c = (wall, now, created)"
    by (cases c)
  with Cons.prems have "Blocking_AcquireLock wall now created key cid st
           = (\<lparr>lock_granted = True, lock_timestamp = wall\<rparr>, st)"
    by (intro AcquireLock_reentrant) auto
  moreover from Cons have "reacquire key cid calls st = (replicate (length calls) True, st)"
    by simp
  ultimately show ?case
    by (simp add: c)
qed

text \<open>
  While the lock of a key has not timed out, \<^verbatim>\<open>AcquireLock\<close> by its owner is
  granted and changes nothing in the replica: the entry keeps its \<open>acquired_at\<close>.
  So however often the owner asks again, the age that the next caller's request
  is measured against is the age since the first grant.
\<close>

lemma reacquire_keeps_acquired_at:
  assumes "blk_locks st key = Some e" and "owner_id e = owner"
    and "\<forall>(wall, now, created) \<in> set calls.
           \<not> LOCK_TIMEOUT_SECONDS < duration_cast_seconds (now - acquired_at e)"
  shows "reacquire key owner calls st = (replicate (length calls) True, st)
    \<and> blk_locks (snd (reacquire key owner calls st)) key = Some e
    \<and> Blocking_AcquireLock wall' now' created' key other (snd (reacquire key owner calls st))
        = Blocking_AcquireLock wall' now' created' key other st"
  using reacquire_unchanged [OF assms] assms(1)
  by simp

text \<open>
  Claim C10. Client 1 is granted the lock of \<open>k\<close> when the steady clock reads
  5 s and asks again at 15 s and at 34 s: both requests are granted and the entry
  keeps \<open>acquired_at\<close> = 5 s, so the timeout runs from the first grant. Client 2
  asks at 35.5 s, that is 30.5 s after the first grant: the request is denied,
  because the age is cut down to 30 whole seconds before the comparison. At 36 s,
  two seconds after the owner's last request, client 2 is granted the lock.
\<close>

theorem reacquired_lock_denied_30_seconds_after_first_grant:
  "blk_locks (snd (Blocking_AcquireLock 5000 5000000000 5000000000 ''k'' 1 Blocking_init)) ''k''
     = Some \<lparr>owner_id = 1, acquired_at = 5000000000\<rparr>
   \<and> reacquire ''k'' 1
        [(15000, 15000000000, 15000000000), (34000, 34000000000, 34000000000)]
        (snd (Blocking_AcquireLock 5000 5000000000 5000000000 ''k'' 1 Blocking_init))
     = ([True, True],
        snd (Blocking_AcquireLock 5000 5000000000 5000000000 ''k'' 1 Blocking_init))
   \<and> 30 * ticks_per_second < 35500000000 - 5000000000
   \<and> \<not> lock_granted (fst (Blocking_AcquireLock 35500 35500000000 35500000000 ''k'' 2
          (snd (reacquire ''k'' 1
             [(15000, 15000000000, 15000000000), (34000, 34000000000, 34000000000)]
             (snd (Blocking_AcquireLock 5000 5000000000 5000000000 ''k'' 1 Blocking_init))))))
   \<and> lock_granted (fst (Blocking_AcquireLock 36000 36000000000 36000000000 ''k'' 2
          (snd (reacquire ''k'' 1
             [(15000, 15000000000, 15000000000), (34000, 34000000000, 34000000000)]
             (snd (Blocking_AcquireLock 5000 5000000000 5000000000 ''k'' 1 Blocking_init))))))"
  by (simp add: Blocking_AcquireLock_def Let_def LockEntry_new_def Blocking_init_def
      duration_cast_seconds_def LOCK_TIMEOUT_SECONDS_def ticks_per_second_def)

section \<open>Properties of the configuration check\<close>



section \<open>Properties of the client engines\<close>

lemma upt_three: "[0..<3] = [0, 1, 2]"
  by (simp add: upt_rec)

text \<open>
  Claim C2. An ABD client can issue a timestamp below one it has seen in a reply.
  Replica 0 holds \<open>k\<close> with timestamp 1000 and answers the client's read with
  it; replicas 1 and 2 do not answer. The read misses its quorum of 2 and
  returns false with the client clock still at 500. The client's next write
  issues timestamp 501, below the 1000 it was shown.
\<close>

theorem ABDClient_issues_below_observed:
  "ABD_Read ''k'' 500 (snd (ABD_Write 400 ''k'' ''v'' 1000 ABD_init))
     = \<lparr>read_value = ''v'', read_timestamp = 1000, read_success = True\<rparr>
   \<and> ABDClient_Read 0
        [0 \<mapsto> \<lparr>read_value = ''v'', read_timestamp = 1000, read_success = True\<rparr>]
        Map.empty \<lparr>abd_config = three_replicas, abd_client_timestamp = 500\<rparr>
     = Some \<lparr>op_ok = False, op_value = None, op_issued = None, op_released = [],
             op_client = \<lparr>abd_config = three_replicas, abd_client_timestamp = 500\<rparr>\<rparr>
   \<and> op_issued (ABDClient_Write [0, 1, 2]
        [0 \<mapsto> \<lparr>write_success = True, write_timestamp = 501\<rparr>,
         1 \<mapsto> \<lparr>write_success = True, write_timestamp = 501\<rparr>,
         2 \<mapsto> \<lparr>write_success = True, write_timestamp = 501\<rparr>]
        \<lparr>abd_config = three_replicas, abd_client_timestamp = 500\<rparr>) = Some 501
   \<and> op_ok (ABDClient_Write [0, 1, 2]
        [0 \<mapsto> \<lparr>write_success = True, write_timestamp = 501\<rparr>,
         1 \<mapsto> \<lparr>write_success = True, write_timestamp = 501\<rparr>,
         2 \<mapsto> \<lparr>write_success = True, write_timestamp = 501\<rparr>]
        \<lparr>abd_config = three_replicas, abd_client_timestamp = 500\<rparr>)
   \<and> (501 :: int64) <s 1000"
  by (simp add: ABD_Read_def ABD_Write_def ABD_GenerateTimestamp_def ABD_init_def std_max_def
      ABDClient_Read_def ABDClient_Write_def ABDClient_ReadFromServer_def
      ABDClient_WriteToServer_def ABDClient_UpdateTimestamp_def
      ABDClient_GetCurrentTimestamp_def three_replicas_def size_t_of_int32_def
      int32_of_size_t_def upt_three Let_def signed_compare)

text \<open>
  The blocking client's read returns the client as it was: no reply of a lock or
  read request reaches the clock.
\<close>

lemma BlockingClient_Read_keeps_clock:
  "op_client (BlockingClient_Read uninit lock_rpc read_rpc st) = st"
  by (simp add: BlockingClient_Read_def Let_def split: list.split)

text \<open>
  Claim C6. A blocking client's write can leave a granted lock behind. All three
  replicas grant the lock of \<open>k\<close> to client 7. The client stops reading the
  answers at the quorum of 2, writes to replicas 0 and 1, and sends
  \<^verbatim>\<open>ReleaseLock\<close> to replicas 0 and 1 only: replica 2, which granted too, is sent
  none and keeps client 7 as the owner of the lock.
\<close>

theorem BlockingClient_Write_leaves_granted_lock:
  "fst (Blocking_AcquireLock 1000 0 0 ''k'' 7 Blocking_init)
     = \<lparr>lock_granted = True, lock_timestamp = 1000\<rparr>
   \<and> Blocking_GetLockOwner ''k'' (snd (Blocking_AcquireLock 1000 0 0 ''k'' 7 Blocking_init)) = 7
   \<and> BlockingClient_Write 0
        [0 \<mapsto> \<lparr>lock_granted = True, lock_timestamp = 1000\<rparr>,
         1 \<mapsto> \<lparr>lock_granted = True, lock_timestamp = 1000\<rparr>,
         2 \<mapsto> \<lparr>lock_granted = True, lock_timestamp = 1000\<rparr>]
        [0 \<mapsto> \<lparr>write_success = True, write_timestamp = 1001\<rparr>,
         1 \<mapsto> \<lparr>write_success = True, write_timestamp = 1001\<rparr>]
        \<lparr>blk_config = three_replicas, blk_client_id = 7, blk_client_timestamp = 500\<rparr>
     = \<lparr>op_ok = True, op_value = None, op_issued = Some 501, op_released = [0, 1],
        op_client = \<lparr>blk_config = three_replicas, blk_client_id = 7,
                     blk_client_timestamp = 1003\<rparr>\<rparr>
   \<and> 2 \<notin> set [0, 1 :: nat]"
  by (simp add: Blocking_AcquireLock_def Blocking_init_def LockEntry_new_def
      Blocking_GetLockOwner_def
      BlockingClient_Write_def BlockingClient_AcquireLockFromServer_def
      BlockingClient_WriteToServer_def BlockingClient_UpdateTimestamp_def
      BlockingClient_GetCurrentTimestamp_def three_replicas_def size_t_of_int32_def
      int32_of_size_t_def upt_three Let_def signed_compare)

end
